theory Spec2Isabelle
  imports Main "HOL-Library.Sublist"
begin

section \<open>Python values, strings and exceptions\<close>

text \<open>
  A Python \<^verbatim>\<open>str\<close> is a sequence of Unicode code points, so text is a list of naturals
  here; \<open>cps\<close> turns an ASCII literal of the theory into one.
\<close>

type_synonym pystr = "nat list"

definition cps :: "string \<Rightarrow> pystr" where
  "cps s = map of_char s"

text \<open>
  The values \<^verbatim>\<open>json.loads\<close> and \<^verbatim>\<open>ast.literal_eval\<close> can hand back. A dict is an
  association list in insertion order, a set the list of its members in insertion order.
  A float is carried as the text that denotes it: rounding to the nearest double, and so
  equality between doubles, is outside this development.
\<close>

datatype pyval =
    PNone
  | PBool bool
  | PInt int
  | PFloat pystr
  | PStr pystr
  | PBytes "nat list"
  | PList "pyval list"
  | PTuple "pyval list"
  | PSet "pyval list"
  | PDict "(pyval \<times> pyval) list"

text \<open>
  The exception classes that reach the two functions. \<^verbatim>\<open>JSONDecodeError\<close> is a subclass
  of \<^verbatim>\<open>ValueError\<close>; \<^verbatim>\<open>KeyboardInterrupt\<close> stands for the classes that derive from
  \<^verbatim>\<open>BaseException\<close> but not from \<^verbatim>\<open>Exception\<close>.
\<close>

datatype exn =
    JSONDecodeError
  | ValueError
  | SyntaxError
  | TypeError
  | AttributeError
  | RecursionError
  | MemoryError
  | KeyboardInterrupt

definition is_ValueError :: "exn \<Rightarrow> bool" where
  "is_ValueError e = (e = ValueError \<or> e = JSONDecodeError)"

definition is_Exception :: "exn \<Rightarrow> bool" where
  "is_Exception e = (e \<noteq> KeyboardInterrupt)"

text \<open>\<^verbatim>\<open>str.isspace\<close> on one code point; the regular expression class \<^verbatim>\<open>\s\<close> of a
  \<^verbatim>\<open>str\<close> pattern is the same set.\<close>

definition is_space :: "nat \<Rightarrow> bool" where
  "is_space c =
     ((9 \<le> c \<and> c \<le> 13) \<or> (28 \<le> c \<and> c \<le> 32) \<or> c = 133 \<or> c = 160 \<or> c = 5760
      \<or> (8192 \<le> c \<and> c \<le> 8202) \<or> c = 8232 \<or> c = 8233 \<or> c = 8239 \<or> c = 8287
      \<or> c = 12288)"

text \<open>\<^verbatim>\<open>s.strip(chars)\<close>, with the set of characters as a predicate, and \<^verbatim>\<open>s.strip()\<close>.\<close>

definition strip_chars :: "(nat \<Rightarrow> bool) \<Rightarrow> pystr \<Rightarrow> pystr" where
  "strip_chars p s = rev (dropWhile p (rev (dropWhile p s)))"

definition strip :: "pystr \<Rightarrow> pystr" where
  "strip s = strip_chars is_space s"

text \<open>\<^verbatim>\<open>s.find(sub)\<close>: the index of the leftmost occurrence; \<^verbatim>\<open>sub in s\<close>.\<close>

fun str_find :: "pystr \<Rightarrow> pystr \<Rightarrow> nat option" where
  "str_find sub [] = (if sub = [] then Some 0 else None)"
| "str_find sub (c # cs) =
     (if prefix sub (c # cs) then Some 0 else map_option Suc (str_find sub cs))"

definition str_contains :: "pystr \<Rightarrow> pystr \<Rightarrow> bool" where
  "str_contains sub s = (str_find sub s \<noteq> None)"

text \<open>
  \<^verbatim>\<open>s.split(sep)\<close>: cut at the leftmost occurrence of the separator and go on behind it.
  Python raises \<^verbatim>\<open>ValueError\<close> on an empty separator; the only call passes a literal of
  thirteen characters, and the guard below only keeps the recursion well-founded.
\<close>

function str_split :: "pystr \<Rightarrow> pystr \<Rightarrow> pystr list" where
  "str_split sep s =
     (if sep = [] then [s]
      else case str_find sep s of
             None \<Rightarrow> [s]
           | Some i \<Rightarrow> take i s # str_split sep (drop (i + length sep) s))"
  by pat_completeness auto
termination
proof (relation "measure (\<lambda>(sep, s). length s)")
  fix sep s :: pystr and i :: nat
  assume "sep \<noteq> []" and "str_find sep s = Some i"
  have "str_find sep t = Some j \<Longrightarrow> j + length sep \<le> length t" for t j
  proof (induction t arbitrary: j)
    case Nil
    then show ?case by (simp split: if_splits)
  next
    case (Cons c cs)
    then show ?case by (auto split: if_splits dest: prefix_length_le)
  qed
  from this [OF \<open>str_find sep s = Some i\<close>] have "i + length sep \<le> length s" .
  with \<open>sep \<noteq> []\<close> show "((sep, drop (i + length sep) s), (sep, s)) \<in> measure (\<lambda>(sep, s). length s)"
    by (cases sep) auto
qed simp

declare str_split.simps [simp del]

text \<open>
  Truthiness of a value, as \<^verbatim>\<open>if action\<close> tests it. A float is falsy when its text
  has no digit other than zero in front of the exponent; underflow to zero is not
  modelled.
\<close>

definition float_truthy :: "pystr \<Rightarrow> bool" where
  "float_truthy l =
     (\<exists>c \<in> set (takeWhile (\<lambda>c. c \<noteq> 101 \<and> c \<noteq> 69) l). (49 \<le> c \<and> c \<le> 57) \<or> c = 78 \<or> c = 73)"

fun truthy :: "pyval \<Rightarrow> bool" where
  "truthy PNone = False"
| "truthy (PBool b) = b"
| "truthy (PInt i) = (i \<noteq> 0)"
| "truthy (PFloat l) = float_truthy l"
| "truthy (PStr s) = (s \<noteq> [])"
| "truthy (PBytes s) = (s \<noteq> [])"
| "truthy (PList xs) = (xs \<noteq> [])"
| "truthy (PTuple xs) = (xs \<noteq> [])"
| "truthy (PSet xs) = (xs \<noteq> [])"
| "truthy (PDict kvs) = (kvs \<noteq> [])"

text \<open>
  \<^verbatim>\<open>x.get(key)\<close>: on a dict the value stored under the key, or \<^verbatim>\<open>None\<close>; every other
  value has no attribute \<^verbatim>\<open>get\<close>.
\<close>

definition dict_get :: "(pyval \<times> pyval) list \<Rightarrow> pystr \<Rightarrow> pyval" where
  "dict_get kvs k = (case map_of kvs (PStr k) of None \<Rightarrow> PNone | Some v \<Rightarrow> v)"

fun py_get :: "pyval \<Rightarrow> pystr \<Rightarrow> exn + pyval" where
  "py_get (PDict kvs) k = Inr (dict_get kvs k)"
| "py_get _ k = Inl AttributeError"

section \<open>Regular expressions\<close>

text \<open>
  The three patterns of the source are sequences of literal characters, greedy and lazy
  repetitions of a character class, and one capturing group. The matcher backtracks in
  the order of Python's \<^verbatim>\<open>re\<close>: a greedy repetition tries the longer match first, a lazy
  one the shorter. It returns the lengths of the text still unread at both ends of the
  group.
\<close>

datatype rx =
    Chr nat
  | Star "nat \<Rightarrow> bool"
  | Lazy "nat \<Rightarrow> bool"
  | Open
  | Close

fun rx_match :: "rx list \<Rightarrow> pystr \<Rightarrow> nat \<times> nat \<Rightarrow> (nat \<times> nat) option" where
  "rx_match [] s g = Some g"
| "rx_match (Chr a # r) [] g = None"
| "rx_match (Chr a # r) (c # cs) g = (if c = a then rx_match r cs g else None)"
| "rx_match (Open # r) s g = rx_match r s (length s, snd g)"
| "rx_match (Close # r) s g = rx_match r s (fst g, length s)"
| "rx_match (Star p # r) [] g = rx_match r [] g"
| "rx_match (Star p # r) (c # cs) g =
     (if p c
      then (case rx_match (Star p # r) cs g of
              Some x \<Rightarrow> Some x
            | None \<Rightarrow> rx_match r (c # cs) g)
      else rx_match r (c # cs) g)"
| "rx_match (Lazy p # r) [] g = rx_match r [] g"
| "rx_match (Lazy p # r) (c # cs) g =
     (case rx_match r (c # cs) g of
        Some x \<Rightarrow> Some x
      | None \<Rightarrow> (if p c then rx_match (Lazy p # r) cs g else None))"

text \<open>The text of group 1 when the match was tried on \<open>s\<close>.\<close>

definition group1 :: "pystr \<Rightarrow> nat \<times> nat \<Rightarrow> pystr" where
  "group1 s g = take (fst g - snd g) (drop (length s - fst g) s)"

text \<open>\<^verbatim>\<open>re.search(pat, s)\<close>: the match at the leftmost position that has one; the result
  is \<^verbatim>\<open>m.group(1)\<close>, the only part of the match the source reads.\<close>

fun re_search :: "rx list \<Rightarrow> pystr \<Rightarrow> pystr option" where
  "re_search pat [] = map_option (group1 []) (rx_match pat [] (0, 0))"
| "re_search pat (c # cs) =
     (case rx_match pat (c # cs) (0, 0) of
        Some g \<Rightarrow> Some (group1 (c # cs) g)
      | None \<Rightarrow> re_search pat cs)"

definition lits :: "string \<Rightarrow> rx list" where
  "lits s = map (\<lambda>c. Chr (of_char c)) s"

definition any_char :: "nat \<Rightarrow> bool" where
  "any_char c = True"

section \<open>The output parser (agent_core.py)\<close>

datatype agent_decision =
    AgentAction (tool: pyval) (tool_input: pyval) (action_log: pystr)
  | AgentFinish (return_output: pystr) (finish_log: pystr)

definition FINAL_ANSWER :: pystr where
  "FINAL_ANSWER = cps ''Final Answer:''"

text \<open>\<^verbatim>\<open>r"Action\s*:\s*```json(.*?)```"\<close> under \<^verbatim>\<open>re.DOTALL\<close>.\<close>

definition ACTION_RE :: "rx list" where
  "ACTION_RE =
     lits ''Action'' @ [Star is_space, Chr 58, Star is_space] @ lits ''```json''
     @ [Open, Lazy any_char, Close] @ lits ''```''"

text \<open>
  The body of the \<^verbatim>\<open>try\<close> block: \<^verbatim>\<open>json.loads\<close> is the parameter \<open>json_loads\<close>.
  \<^verbatim>\<open>AgentAction\<close> and \<^verbatim>\<open>AgentFinish\<close> are the framework's classes, taken as plain
  constructors; \<open>return_output\<close> is the entry \<^verbatim>\<open>"output"\<close> of \<^verbatim>\<open>return_values\<close>. The
  calls of \<^verbatim>\<open>print\<close> are left out: they do not change what is returned.
\<close>

definition action_block :: "(pystr \<Rightarrow> exn + pyval) \<Rightarrow> pystr \<Rightarrow> pystr \<Rightarrow> exn + agent_decision" where
  "action_block json_loads json_str text =
     (case json_loads json_str of
        Inl e \<Rightarrow> Inl e
      | Inr action_dict \<Rightarrow>
          (case py_get action_dict (cps ''action'') of
             Inl e \<Rightarrow> Inl e
           | Inr action \<Rightarrow>
               (case py_get action_dict (cps ''action_input'') of
                  Inl e \<Rightarrow> Inl e
                | Inr action_input \<Rightarrow>
                    if truthy action \<and> action_input \<noteq> PNone
                    then Inr (AgentAction action action_input text)
                    else Inl ValueError)))"

definition parse :: "(pystr \<Rightarrow> exn + pyval) \<Rightarrow> pystr \<Rightarrow> exn + agent_decision" where
  "parse json_loads text =
     (if str_contains FINAL_ANSWER text
      then Inr (AgentFinish (strip (last (str_split FINAL_ANSWER text))) text)
      else case re_search ACTION_RE text of
             Some g \<Rightarrow>
               (case action_block json_loads (strip g) text of
                  Inr d \<Rightarrow> Inr d
                | Inl e \<Rightarrow>
                    if e = JSONDecodeError then Inr (AgentFinish (strip text) text)
                    else if is_ValueError e then Inr (AgentFinish (strip text) text)
                    else Inl e)
           | None \<Rightarrow> Inr (AgentFinish (strip text) text))"

section \<open>The payload recoverer (main.py)\<close>

definition ARRAY_RE :: "rx list" where
  "ARRAY_RE = [Open, Chr 91, Star is_space, Lazy any_char, Chr 93, Close]"

definition OBJECT_RE :: "rx list" where
  "OBJECT_RE = [Open, Chr 123, Star is_space, Lazy any_char, Chr 125, Close]"

definition patterns :: "rx list list" where
  "patterns = [ARRAY_RE, OBJECT_RE]"

definition is_backtick :: "nat \<Rightarrow> bool" where
  "is_backtick c = (c = 96)"

fun is_dict_or_list :: "pyval \<Rightarrow> bool" where
  "is_dict_or_list (PDict kvs) = True"
| "is_dict_or_list (PList xs) = True"
| "is_dict_or_list _ = False"

text \<open>The \<^verbatim>\<open>for pat in patterns\<close> loop; \<^verbatim>\<open>ast.literal_eval\<close> is the parameter
  \<open>literal_eval\<close>.\<close>

fun extract_loop ::
  "(pystr \<Rightarrow> exn + pyval) \<Rightarrow> (pystr \<Rightarrow> exn + pyval) \<Rightarrow> pystr \<Rightarrow> rx list list \<Rightarrow> exn + pyval"
where
  "extract_loop json_loads literal_eval s [] = Inr PNone"
| "extract_loop json_loads literal_eval s (pat # pats) =
     (case re_search pat s of
        None \<Rightarrow> extract_loop json_loads literal_eval s pats
      | Some g \<Rightarrow>
          (let candidate = strip_chars is_backtick (strip g) in
           case json_loads candidate of
             Inr v \<Rightarrow> Inr v
           | Inl e \<Rightarrow>
               if is_Exception e
               then (case literal_eval candidate of
                       Inr v \<Rightarrow> Inr v
                     | Inl e' \<Rightarrow>
                         if is_Exception e'
                         then extract_loop json_loads literal_eval s pats
                         else Inl e')
               else Inl e))"

text \<open>The second strategy, \<^verbatim>\<open>ast.literal_eval\<close> on the whole stripped text, with its
  handler; the patterns follow when it yields nothing.\<close>

definition literal_stage ::
  "(pystr \<Rightarrow> exn + pyval) \<Rightarrow> (pystr \<Rightarrow> exn + pyval) \<Rightarrow> pystr \<Rightarrow> exn + pyval"
where
  "literal_stage json_loads literal_eval s =
     (case literal_eval (strip s) of
        Inr candidate \<Rightarrow>
          if is_dict_or_list candidate then Inr candidate
          else extract_loop json_loads literal_eval s patterns
      | Inl e \<Rightarrow>
          if is_ValueError e \<or> e = SyntaxError
          then extract_loop json_loads literal_eval s patterns
          else Inl e)"

text \<open>\<^verbatim>\<open>isinstance(s, str)\<close>.\<close>

fun is_str :: "pyval \<Rightarrow> bool" where
  "is_str (PStr s) = True"
| "is_str _ = False"

text \<open>\<^verbatim>\<open>_try_extract_json_from_text\<close>. Returning \<^verbatim>\<open>None\<close> is returning \<open>PNone\<close>; the
  second equation is the guard \<^verbatim>\<open>if not isinstance(s, str): return None\<close>.\<close>

fun try_extract_json_from_text ::
  "(pystr \<Rightarrow> exn + pyval) \<Rightarrow> (pystr \<Rightarrow> exn + pyval) \<Rightarrow> pyval \<Rightarrow> exn + pyval"
where
  "try_extract_json_from_text json_loads literal_eval (PStr s) =
     (case json_loads (strip s) of
        Inr v \<Rightarrow> Inr v
      | Inl e \<Rightarrow>
          if e = JSONDecodeError \<or> e = TypeError
          then literal_stage json_loads literal_eval s
          else Inl e)"
| "try_extract_json_from_text json_loads literal_eval _ = Inr PNone"

text \<open>
  The end of \<^verbatim>\<open>run_query\<close> for an \<open>output_raw\<close> that is a \<^verbatim>\<open>str\<close>: the content handed
  to \<^verbatim>\<open>JSONResponse\<close>.
\<close>

definition respond_str ::
  "(pystr \<Rightarrow> exn + pyval) \<Rightarrow> (pystr \<Rightarrow> exn + pyval) \<Rightarrow> pystr \<Rightarrow> exn + pyval"
where
  "respond_str json_loads literal_eval output_raw =
     (case try_extract_json_from_text json_loads literal_eval (PStr output_raw) of
        Inl e \<Rightarrow> Inl e
      | Inr parsed \<Rightarrow>
          if parsed \<noteq> PNone then Inr parsed
          else Inr (PDict [(PStr (cps ''output''), PStr output_raw)]))"

section \<open>A reference model of json.loads\<close>

text \<open>
  \<^verbatim>\<open>json.loads\<close> belongs to Python's library, so the two functions above take it as a
  parameter. The closed examples and the round trip need a decoder that runs: this one
  follows CPython's scanner for \<^verbatim>\<open>str\<close> input (strict mode, no hooks) in two passes,
  tokens first, then a stack machine over the tokens. Every failure of the decoder is a
  \<^verbatim>\<open>JSONDecodeError\<close>; the interpreter's resource limits (recursion depth, the digit limit
  of \<^verbatim>\<open>int\<close>) are not part of it.
\<close>

datatype jtok = JLBrace | JRBrace | JLBrack | JRBrack | JComma | JColon | JVal pyval

definition is_json_ws :: "nat \<Rightarrow> bool" where
  "is_json_ws c = (c = 32 \<or> c = 9 \<or> c = 10 \<or> c = 13)"

definition is_digit :: "nat \<Rightarrow> bool" where
  "is_digit c = (48 \<le> c \<and> c \<le> 57)"

definition hexval :: "nat \<Rightarrow> nat option" where
  "hexval c =
     (if 48 \<le> c \<and> c \<le> 57 then Some (c - 48)
      else if 97 \<le> c \<and> c \<le> 102 then Some (c - 87)
      else if 65 \<le> c \<and> c \<le> 70 then Some (c - 55)
      else None)"

text \<open>The four hexadecimal digits of a \<^verbatim>\<open>\uXXXX\<close> escape.\<close>

fun hex4 :: "pystr \<Rightarrow> nat option" where
  "hex4 (a # b # c # d # r) =
     (case (hexval a, hexval b, hexval c, hexval d) of
        (Some x, Some y, Some z, Some w) \<Rightarrow> Some (((x * 16 + y) * 16 + z) * 16 + w)
      | _ \<Rightarrow> None)"
| "hex4 _ = None"

definition simple_escape :: "nat \<Rightarrow> nat option" where
  "simple_escape e =
     (if e = 34 \<or> e = 92 \<or> e = 47 then Some e
      else if e = 98 then Some 8
      else if e = 102 then Some 12
      else if e = 110 then Some 10
      else if e = 114 then Some 13
      else if e = 116 then Some 9
      else None)"

definition is_high_surrogate :: "nat \<Rightarrow> bool" where
  "is_high_surrogate c = (55296 \<le> c \<and> c \<le> 56319)"

definition is_low_surrogate :: "nat \<Rightarrow> bool" where
  "is_low_surrogate c = (56320 \<le> c \<and> c \<le> 57343)"

text \<open>A \<^verbatim>\<open>\uXXXX\<close> escape with a low surrogate at the head of the text.\<close>

fun low_escape :: "pystr \<Rightarrow> nat option" where
  "low_escape (b # u # r) =
     (if b = 92 \<and> u = 117
      then (case hex4 r of
              Some c2 \<Rightarrow> if is_low_surrogate c2 then Some c2 else None
            | None \<Rightarrow> None)
      else None)"
| "low_escape _ = None"

definition join_surrogates :: "nat \<Rightarrow> nat \<Rightarrow> nat" where
  "join_surrogates hi lo = 65536 + ((hi - 55296) * 1024 + (lo - 56320))"

definition cons_str :: "nat \<Rightarrow> (pystr \<times> pystr) option \<Rightarrow> (pystr \<times> pystr) option" where
  "cons_str c x = map_option (\<lambda>(v, r). (c # v, r)) x"

text \<open>The text behind an opening quote: the decoded string and what follows the closing
  quote.\<close>

function scan_str :: "pystr \<Rightarrow> (pystr \<times> pystr) option" where
  "scan_str [] = None"
| "scan_str (c # cs) =
     (if c = 34 then Some ([], cs)
      else if c = 92 then
        (case cs of
           [] \<Rightarrow> None
         | e # r \<Rightarrow>
             if e = 117 then
               (case hex4 r of
                  None \<Rightarrow> None
                | Some c1 \<Rightarrow>
                    (case (if is_high_surrogate c1 then low_escape (drop 4 r) else None) of
                       Some c2 \<Rightarrow> cons_str (join_surrogates c1 c2) (scan_str (drop 10 r))
                     | None \<Rightarrow> cons_str c1 (scan_str (drop 4 r))))
             else (case simple_escape e of
                     None \<Rightarrow> None
                   | Some d \<Rightarrow> cons_str d (scan_str r)))
      else if c < 32 then None
      else cons_str c (scan_str cs))"
  by pat_completeness auto
termination
  by (relation "measure length") auto

definition dec_val :: "pystr \<Rightarrow> nat" where
  "dec_val ds = foldl (\<lambda>a c. 10 * a + (c - 48)) 0 ds"

text \<open>The integer part of a number: \<^verbatim>\<open>0\<close>, or a digit from 1 to 9 and more digits.\<close>

definition int_part :: "pystr \<Rightarrow> pystr" where
  "int_part s =
     (case s of
        [] \<Rightarrow> []
      | c # cs \<Rightarrow> if c = 48 then [c] else if is_digit c then c # takeWhile is_digit cs else [])"

definition frac_part :: "pystr \<Rightarrow> pystr" where
  "frac_part s =
     (case s of
        p # d # r \<Rightarrow> if p = 46 \<and> is_digit d then p # d # takeWhile is_digit r else []
      | _ \<Rightarrow> [])"

definition exp_part :: "pystr \<Rightarrow> pystr" where
  "exp_part s =
     (case s of
        [] \<Rightarrow> []
      | e # r \<Rightarrow>
          if e = 101 \<or> e = 69 then
            (let sg = (case r of [] \<Rightarrow> [] | x # _ \<Rightarrow> if x = 43 \<or> x = 45 then [x] else []);
                 ds = takeWhile is_digit (drop (length sg) r)
             in if ds = [] then [] else e # sg @ ds)
          else [])"

text \<open>A number at the head of the text: its value and the text behind it.\<close>

definition scan_number :: "pystr \<Rightarrow> (pyval \<times> pystr) option" where
  "scan_number s =
     (let sg = (case s of [] \<Rightarrow> [] | c # _ \<Rightarrow> if c = 45 then [c] else []);
          s1 = drop (length sg) s;
          ip = int_part s1;
          fp = frac_part (drop (length ip) s1);
          ep = exp_part (drop (length ip + length fp) s1);
          r = drop (length ip + length fp + length ep) s1
      in if ip = [] then None
         else if fp = [] \<and> ep = []
         then Some (PInt (if sg = [] then int (dec_val ip) else - int (dec_val ip)), r)
         else Some (PFloat (sg @ ip @ fp @ ep), r))"

text \<open>The constants of the scanner, tried before a number.\<close>

definition scan_const :: "pystr \<Rightarrow> (pyval \<times> pystr) option" where
  "scan_const s =
     (if prefix (cps ''null'') s then Some (PNone, drop 4 s)
      else if prefix (cps ''true'') s then Some (PBool True, drop 4 s)
      else if prefix (cps ''false'') s then Some (PBool False, drop 5 s)
      else if prefix (cps ''NaN'') s then Some (PFloat (cps ''NaN''), drop 3 s)
      else if prefix (cps ''Infinity'') s then Some (PFloat (cps ''Infinity''), drop 8 s)
      else if prefix (cps ''-Infinity'') s then Some (PFloat (cps ''-Infinity''), drop 9 s)
      else None)"

definition cons_tok :: "jtok \<Rightarrow> jtok list option \<Rightarrow> jtok list option" where
  "cons_tok t x = map_option (Cons t) x"

function json_lex :: "pystr \<Rightarrow> jtok list option" where
  "json_lex [] = Some []"
| "json_lex (c # cs) =
     (if is_json_ws c then json_lex cs
      else if c = 123 then cons_tok JLBrace (json_lex cs)
      else if c = 125 then cons_tok JRBrace (json_lex cs)
      else if c = 91 then cons_tok JLBrack (json_lex cs)
      else if c = 93 then cons_tok JRBrack (json_lex cs)
      else if c = 44 then cons_tok JComma (json_lex cs)
      else if c = 58 then cons_tok JColon (json_lex cs)
      else if c = 34 then
        (case scan_str cs of
           None \<Rightarrow> None
         | Some (v, r) \<Rightarrow> cons_tok (JVal (PStr v)) (json_lex r))
      else
        (case scan_const (c # cs) of
           Some (v, r) \<Rightarrow> cons_tok (JVal v) (json_lex r)
         | None \<Rightarrow>
             (case scan_number (c # cs) of
                Some (v, r) \<Rightarrow> cons_tok (JVal v) (json_lex r)
              | None \<Rightarrow> None)))"
  by pat_completeness auto
termination
proof (relation "measure length")
  have str: "scan_str s = Some (v, r) \<Longrightarrow> length r < length s" for s v r
  proof (induction s arbitrary: v r rule: scan_str.induct)
    case 1
    then show ?case by simp
  next
    case (2 c cs)
    then show ?case
      by (fastforce simp: cons_str_def split: if_splits list.splits option.splits)
  qed
  have const: "scan_const s = Some (v, r) \<Longrightarrow> length r < length s" for s v r
    by (cases s) (auto simp: scan_const_def cps_def split: if_splits)
  have num: "scan_number s = Some (v, r) \<Longrightarrow> length r < length s" for s v r
    by (cases s) (auto simp: scan_number_def int_part_def Let_def split: if_splits list.splits)
  fix c :: nat and cs :: pystr
  show "scan_str cs = Some x2 \<Longrightarrow> (v, r) = x2 \<Longrightarrow> (r, c # cs) \<in> measure length" for x2 v r
    using str [of cs v r] by simp
  show "scan_const (c # cs) = Some x2 \<Longrightarrow> (v, r) = x2 \<Longrightarrow> (r, c # cs) \<in> measure length"
    for x2 v r
    using const [of "c # cs" v r] by simp
  show "scan_number (c # cs) = Some x2 \<Longrightarrow> (v, r) = x2 \<Longrightarrow> (r, c # cs) \<in> measure length"
    for x2 v r
    using num [of "c # cs" v r] by simp
qed auto

text \<open>
  \<^verbatim>\<open>dict(pairs)\<close>: a key that comes again keeps its place and takes the new value.
\<close>

definition dict_set :: "(pyval \<times> pyval) list \<Rightarrow> pyval \<Rightarrow> pyval \<Rightarrow> (pyval \<times> pyval) list" where
  "dict_set d k v =
     (if k \<in> fst ` set d then map (\<lambda>(k', v'). if k' = k then (k', v) else (k', v')) d
      else d @ [(k, v)])"

definition mk_dict :: "(pyval \<times> pyval) list \<Rightarrow> (pyval \<times> pyval) list" where
  "mk_dict ps = foldl (\<lambda>d (k, v). dict_set d k v) [] ps"

text \<open>
  The stack machine. A frame says what the enclosing construct has read so far; lists of
  elements and of pairs are kept in reverse.
\<close>

datatype jframe =
    FTop
  | FDone pyval
  | FArrOpen
  | FArrVal "pyval list"
  | FArrComma "pyval list"
  | FObjOpen
  | FObjKey "(pyval \<times> pyval) list" pystr
  | FObjColon "(pyval \<times> pyval) list" pystr
  | FObjVal "(pyval \<times> pyval) list"
  | FObjComma "(pyval \<times> pyval) list"

text \<open>A complete value arrives where one is expected.\<close>

fun push_val :: "pyval \<Rightarrow> jframe list \<Rightarrow> jframe list option" where
  "push_val v (FTop # st) = Some (FDone v # st)"
| "push_val v (FArrOpen # st) = Some (FArrVal [v] # st)"
| "push_val v (FArrComma vs # st) = Some (FArrVal (v # vs) # st)"
| "push_val v (FObjColon ps k # st) = Some (FObjVal ((PStr k, v) # ps) # st)"
| "push_val v _ = None"

fun expects_value :: "jframe list \<Rightarrow> bool" where
  "expects_value (FTop # st) = True"
| "expects_value (FArrOpen # st) = True"
| "expects_value (FArrComma vs # st) = True"
| "expects_value (FObjColon ps k # st) = True"
| "expects_value _ = False"

fun json_step :: "jframe list \<Rightarrow> jtok \<Rightarrow> jframe list option" where
  "json_step st JLBrack = (if expects_value st then Some (FArrOpen # st) else None)"
| "json_step st JLBrace = (if expects_value st then Some (FObjOpen # st) else None)"
| "json_step (FArrOpen # st) JRBrack = push_val (PList []) st"
| "json_step (FArrVal vs # st) JRBrack = push_val (PList (rev vs)) st"
| "json_step (FObjOpen # st) JRBrace = push_val (PDict []) st"
| "json_step (FObjVal ps # st) JRBrace = push_val (PDict (mk_dict (rev ps))) st"
| "json_step (FArrVal vs # st) JComma = Some (FArrComma vs # st)"
| "json_step (FObjVal ps # st) JComma = Some (FObjComma ps # st)"
| "json_step (FObjKey ps k # st) JColon = Some (FObjColon ps k # st)"
| "json_step (FObjOpen # st) (JVal (PStr k)) = Some (FObjKey [] k # st)"
| "json_step (FObjComma ps # st) (JVal (PStr k)) = Some (FObjKey ps k # st)"
| "json_step st (JVal v) = push_val v st"
| "json_step st t = None"

fun json_run :: "jframe list \<Rightarrow> jtok list \<Rightarrow> pyval option" where
  "json_run st [] = (case st of [FDone v] \<Rightarrow> Some v | _ \<Rightarrow> None)"
| "json_run st (t # ts) = (case json_step st t of None \<Rightarrow> None | Some st' \<Rightarrow> json_run st' ts)"

definition py_json_loads :: "pystr \<Rightarrow> exn + pyval" where
  "py_json_loads s =
     (case json_lex s of
        None \<Rightarrow> Inl JSONDecodeError
      | Some ts \<Rightarrow>
          (case json_run [FTop] ts of
             None \<Rightarrow> Inl JSONDecodeError
           | Some v \<Rightarrow> Inr v))"

section \<open>A reference model of ast.literal_eval\<close>

text \<open>
  \<^verbatim>\<open>ast.literal_eval\<close> is the other parameter. The closed examples run it on a fragment
  of Python's literals: the names \<^verbatim>\<open>True\<close>, \<^verbatim>\<open>False\<close>, \<^verbatim>\<open>None\<close> and other
  identifiers, decimal integers without sign, strings in single or double quotes without
  backslash, and tuples, lists, sets and dicts of these. The text is parsed first, and a
  text that does not parse is a \<^verbatim>\<open>SyntaxError\<close>; the conversion of the parsed expression
  then raises \<^verbatim>\<open>ValueError\<close> at a name that is no constant and \<^verbatim>\<open>TypeError\<close> at an
  unhashable dict key or set member. On a text outside the fragment (floats, signs,
  escapes, string prefixes and concatenation, comments, operators, calls) this model
  answers \<^verbatim>\<open>SyntaxError\<close>, which need not be Python's answer; no statement about every
  input uses it.
\<close>

datatype pyexpr =
    EName pystr
  | EInt int
  | EStr pystr
  | EList "pyexpr list"
  | ETuple "pyexpr list"
  | ESet "pyexpr list"
  | EDict "(pyexpr \<times> pyexpr) list"

datatype ptok =
    TLPar | TRPar | TLBrack | TRBrack | TLBrace | TRBrace | TComma | TColon | TNewline
  | TAtom pyexpr

definition is_quote :: "nat \<Rightarrow> bool" where
  "is_quote c = (c = 39 \<or> c = 34)"

definition ident_start :: "nat \<Rightarrow> bool" where
  "ident_start c = ((65 \<le> c \<and> c \<le> 90) \<or> (97 \<le> c \<and> c \<le> 122) \<or> c = 95)"

definition ident_char :: "nat \<Rightarrow> bool" where
  "ident_char c = (ident_start c \<or> is_digit c)"

definition starts_with :: "(nat \<Rightarrow> bool) \<Rightarrow> pystr \<Rightarrow> bool" where
  "starts_with p s = (case s of [] \<Rightarrow> False | c # _ \<Rightarrow> p c)"

definition cons_ptok :: "ptok \<Rightarrow> ptok list option \<Rightarrow> ptok list option" where
  "cons_ptok t x = map_option (Cons t) x"

function py_lex :: "pystr \<Rightarrow> ptok list option" where
  "py_lex [] = Some []"
| "py_lex (c # cs) =
     (if c = 32 \<or> c = 9 \<or> c = 12 then py_lex cs
      else if c = 10 \<or> c = 13 then cons_ptok TNewline (py_lex cs)
      else if c = 40 then cons_ptok TLPar (py_lex cs)
      else if c = 41 then cons_ptok TRPar (py_lex cs)
      else if c = 91 then cons_ptok TLBrack (py_lex cs)
      else if c = 93 then cons_ptok TRBrack (py_lex cs)
      else if c = 123 then cons_ptok TLBrace (py_lex cs)
      else if c = 125 then cons_ptok TRBrace (py_lex cs)
      else if c = 44 then cons_ptok TComma (py_lex cs)
      else if c = 58 then cons_ptok TColon (py_lex cs)
      else if is_quote c then
        (let body = takeWhile (\<lambda>x. x \<noteq> c \<and> x \<noteq> 92 \<and> x \<noteq> 10 \<and> x \<noteq> 13) cs in
         case dropWhile (\<lambda>x. x \<noteq> c \<and> x \<noteq> 92 \<and> x \<noteq> 10 \<and> x \<noteq> 13) cs of
           [] \<Rightarrow> None
         | q # r \<Rightarrow>
             if q = c \<and> \<not> starts_with is_quote r
             then cons_ptok (TAtom (EStr body)) (py_lex r)
             else None)
      else if is_digit c then
        (let ds = c # takeWhile is_digit cs; r = dropWhile is_digit cs in
         if (c = 48 \<and> ds \<noteq> [c]) \<or> starts_with (\<lambda>x. ident_char x \<or> x = 46) r then None
         else cons_ptok (TAtom (EInt (int (dec_val ds)))) (py_lex r))
      else if ident_start c then
        (let r = dropWhile ident_char cs in
         if starts_with is_quote r then None
         else cons_ptok (TAtom (EName (c # takeWhile ident_char cs))) (py_lex r))
      else None)"
  by pat_completeness auto
termination
proof -
  have tl: "dropWhile p cs = q # r \<Longrightarrow> length r < Suc (length cs)"
    for p :: "nat \<Rightarrow> bool" and cs r q
    using length_dropWhile_le [of p cs] by simp
  show ?thesis
    by (relation "measure length") (auto dest: tl simp: less_Suc_eq_le length_dropWhile_le)
qed

text \<open>
  The stack machine of the parser. A sequence frame holds the items read so far, in
  reverse, and whether an item or a comma came last; a brace is a set or a dict once the
  token behind its first item is known.
\<close>

datatype gkind = KTop | KParen | KBrack | KSet

datatype gstate = GStart | GItem | GComma

datatype gframe =
    GSeq gkind "pyexpr list" gstate
  | GEnd pyexpr
  | GBraceOpen
  | GBraceFirst pyexpr
  | GDictKey "(pyexpr \<times> pyexpr) list" pyexpr
  | GDictColon "(pyexpr \<times> pyexpr) list" pyexpr
  | GDictVal "(pyexpr \<times> pyexpr) list"
  | GDictComma "(pyexpr \<times> pyexpr) list"

fun push_atom :: "pyexpr \<Rightarrow> gframe list \<Rightarrow> gframe list option" where
  "push_atom e (GSeq k es GStart # st) = Some (GSeq k (e # es) GItem # st)"
| "push_atom e (GSeq k es GComma # st) = Some (GSeq k (e # es) GItem # st)"
| "push_atom e (GBraceOpen # st) = Some (GBraceFirst e # st)"
| "push_atom e (GDictColon ps k # st) = Some (GDictVal ((k, e) # ps) # st)"
| "push_atom e (GDictComma ps # st) = Some (GDictKey ps e # st)"
| "push_atom e _ = None"

fun expects_atom :: "gframe list \<Rightarrow> bool" where
  "expects_atom (GSeq k es GStart # st) = True"
| "expects_atom (GSeq k es GComma # st) = True"
| "expects_atom (GBraceOpen # st) = True"
| "expects_atom (GDictColon ps k # st) = True"
| "expects_atom (GDictComma ps # st) = True"
| "expects_atom _ = False"

text \<open>The expression a sequence stands for when it ends: one item without a comma is
  the item itself, everything else a tuple.\<close>

fun seq_expr :: "pyexpr list \<Rightarrow> gstate \<Rightarrow> pyexpr" where
  "seq_expr [e] GItem = e"
| "seq_expr es s = ETuple (rev es)"

fun py_step :: "gframe list \<Rightarrow> ptok \<Rightarrow> gframe list option" where
  "py_step st TLPar = (if expects_atom st then Some (GSeq KParen [] GStart # st) else None)"
| "py_step st TLBrack = (if expects_atom st then Some (GSeq KBrack [] GStart # st) else None)"
| "py_step st TLBrace = (if expects_atom st then Some (GBraceOpen # st) else None)"
| "py_step st (TAtom e) = push_atom e st"
| "py_step (GSeq k es GItem # st) TComma = Some (GSeq k es GComma # st)"
| "py_step (GBraceFirst e # st) TComma = Some (GSeq KSet [e] GComma # st)"
| "py_step (GDictVal ps # st) TComma = Some (GDictComma ps # st)"
| "py_step (GBraceFirst e # st) TColon = Some (GDictColon [] e # st)"
| "py_step (GDictKey ps k # st) TColon = Some (GDictColon ps k # st)"
| "py_step (GSeq KParen es s # st) TRPar = push_atom (seq_expr es s) st"
| "py_step (GSeq KBrack es s # st) TRBrack = push_atom (EList (rev es)) st"
| "py_step (GBraceOpen # st) TRBrace = push_atom (EDict []) st"
| "py_step (GBraceFirst e # st) TRBrace = push_atom (ESet [e]) st"
| "py_step (GSeq KSet es s # st) TRBrace = push_atom (ESet (rev es)) st"
| "py_step (GDictVal ps # st) TRBrace = push_atom (EDict (rev ps)) st"
| "py_step (GDictComma ps # st) TRBrace = push_atom (EDict (rev ps)) st"
| "py_step [GSeq KTop es GStart] TNewline = Some [GSeq KTop es GStart]"
| "py_step [GSeq KTop es s] TNewline = Some [GEnd (seq_expr es s)]"
| "py_step [GEnd e] TNewline = Some [GEnd e]"
| "py_step [] TNewline = None"
| "py_step (f # g # st) TNewline = Some (f # g # st)"
| "py_step st t = None"

fun py_run :: "gframe list \<Rightarrow> ptok list \<Rightarrow> pyexpr option" where
  "py_run st [] =
     (case st of
        [GEnd e] \<Rightarrow> Some e
      | [GSeq KTop es GItem] \<Rightarrow> Some (seq_expr es GItem)
      | [GSeq KTop es GComma] \<Rightarrow> Some (seq_expr es GComma)
      | _ \<Rightarrow> None)"
| "py_run st (t # ts) = (case py_step st t of None \<Rightarrow> None | Some st' \<Rightarrow> py_run st' ts)"

text \<open>
  Hashing and equality of keys: \<^verbatim>\<open>True == 1\<close> and \<^verbatim>\<open>False == 0\<close>, also inside tuples;
  lists, sets and dicts have no hash.
\<close>

fun hashable :: "pyval \<Rightarrow> bool" where
  "hashable (PList xs) = False"
| "hashable (PSet xs) = False"
| "hashable (PDict kvs) = False"
| "hashable (PTuple xs) = list_all hashable xs"
| "hashable _ = True"

fun key_norm :: "pyval \<Rightarrow> pyval" where
  "key_norm (PBool b) = PInt (if b then 1 else 0)"
| "key_norm (PTuple xs) = PTuple (map key_norm xs)"
| "key_norm v = v"

definition set_add :: "pyval list \<Rightarrow> pyval \<Rightarrow> pyval list" where
  "set_add xs v = (if key_norm v \<in> key_norm ` set xs then xs else xs @ [v])"

definition dict_put :: "(pyval \<times> pyval) list \<Rightarrow> pyval \<Rightarrow> pyval \<Rightarrow> (pyval \<times> pyval) list" where
  "dict_put d k v =
     (if key_norm k \<in> (key_norm \<circ> fst) ` set d
      then map (\<lambda>(k', v'). if key_norm k' = key_norm k then (k', v) else (k', v')) d
      else d @ [(k, v)])"

text \<open>\<^verbatim>\<open>_convert\<close>: items are converted from left to right, and a set member or a dict
  key is hashed as soon as it, and for a dict its value, has been converted.\<close>

function (sequential) convert :: "pyexpr \<Rightarrow> exn + pyval"
  and convert_all :: "pyexpr list \<Rightarrow> exn + pyval list"
  and convert_set :: "pyexpr list \<Rightarrow> pyval list \<Rightarrow> exn + pyval list"
  and convert_dict :: "(pyexpr \<times> pyexpr) list \<Rightarrow> (pyval \<times> pyval) list \<Rightarrow> exn + (pyval \<times> pyval) list"
where
  "convert (EName n) =
     (if n = cps ''True'' then Inr (PBool True)
      else if n = cps ''False'' then Inr (PBool False)
      else if n = cps ''None'' then Inr PNone
      else Inl ValueError)"
| "convert (EInt i) = Inr (PInt i)"
| "convert (EStr s) = Inr (PStr s)"
| "convert (EList es) = (case convert_all es of Inl x \<Rightarrow> Inl x | Inr vs \<Rightarrow> Inr (PList vs))"
| "convert (ETuple es) = (case convert_all es of Inl x \<Rightarrow> Inl x | Inr vs \<Rightarrow> Inr (PTuple vs))"
| "convert (ESet es) = (case convert_set es [] of Inl x \<Rightarrow> Inl x | Inr vs \<Rightarrow> Inr (PSet vs))"
| "convert (EDict ps) = (case convert_dict ps [] of Inl x \<Rightarrow> Inl x | Inr d \<Rightarrow> Inr (PDict d))"
| "convert_all [] = Inr []"
| "convert_all (e # es) =
     (case convert e of
        Inl x \<Rightarrow> Inl x
      | Inr v \<Rightarrow> (case convert_all es of Inl x \<Rightarrow> Inl x | Inr vs \<Rightarrow> Inr (v # vs)))"
| "convert_set [] acc = Inr acc"
| "convert_set (e # es) acc =
     (case convert e of
        Inl x \<Rightarrow> Inl x
      | Inr v \<Rightarrow> if hashable v then convert_set es (set_add acc v) else Inl TypeError)"
| "convert_dict [] acc = Inr acc"
| "convert_dict ((ke, ve) # ps) acc =
     (case convert ke of
        Inl x \<Rightarrow> Inl x
      | Inr k \<Rightarrow>
          (case convert ve of
             Inl x \<Rightarrow> Inl x
           | Inr v \<Rightarrow> if hashable k then convert_dict ps (dict_put acc k v) else Inl TypeError))"
  by pat_completeness auto
termination
  by (relation "measure (case_sum (case_sum size (size_list size))
        (case_sum (\<lambda>p. size_list size (fst p)) (\<lambda>p. size_list (size_prod size size) (fst p))))")
     auto

definition py_literal_eval :: "pystr \<Rightarrow> exn + pyval" where
  "py_literal_eval s =
     (case py_lex (dropWhile (\<lambda>c. c = 32 \<or> c = 9) s) of
        None \<Rightarrow> Inl SyntaxError
      | Some ts \<Rightarrow>
          (case py_run [GSeq KTop [] GStart] ts of
             None \<Rightarrow> Inl SyntaxError
           | Some e \<Rightarrow> convert e))"

section \<open>Strict JSON serialization\<close>

















section \<open>Evaluation and string lemmas\<close>

text \<open>The definitions a closed example unfolds.\<close>

lemmas rx_eval = ACTION_RE_def ARRAY_RE_def OBJECT_RE_def patterns_def lits_def cps_def group1_def
  is_space_def any_char_def
lemmas str_eval = strip_def strip_chars_def is_space_def is_backtick_def str_contains_def
  FINAL_ANSWER_def cps_def
lemmas json_eval = py_json_loads_def cps_def is_json_ws_def cons_tok_def scan_const_def
  scan_number_def int_part_def frac_part_def exp_part_def is_digit_def dec_val_def cons_str_def
  hexval_def simple_escape_def is_high_surrogate_def is_low_surrogate_def join_surrogates_def
  mk_dict_def dict_set_def Let_def
lemmas literal_eval = py_literal_eval_def cps_def cons_ptok_def is_quote_def ident_start_def
  ident_char_def starts_with_def is_digit_def dec_val_def set_add_def dict_put_def Let_def

lemma str_find_None: "str_find sub s = None \<longleftrightarrow> \<not> sublist sub s"
proof (induction s)
  case Nil
  then show ?case by simp
next
  case (Cons c cs)
  then show ?case by (auto simp: sublist_Cons_right)
qed

lemma str_contains_sublist: "str_contains sub s \<longleftrightarrow> sublist sub s"
  by (simp add: str_contains_def str_find_None)

lemma not_sublist_eval: "str_find sub s = None \<Longrightarrow> \<not> sublist sub s"
  by (simp add: str_find_None)

lemma str_find_Some:
  "str_find sub s = Some i \<Longrightarrow> s = take i s @ sub @ drop (i + length sub) s"
proof (induction s arbitrary: i)
  case Nil
  then show ?case by (simp split: if_splits)
next
  case (Cons c cs)
  show ?case
  proof (cases "prefix sub (c # cs)")
    case True
    with Cons.prems have "i = 0" by simp
    with True show ?thesis by (auto simp: prefix_def)
  next
    case False
    with Cons.prems obtain j where j: "str_find sub cs = Some j" "i = Suc j" by auto
    from Cons.IH [OF j(1)] j(2) show ?thesis by simp
  qed
qed

lemma str_split_not_Nil: "str_split sep s \<noteq> []"
  by (subst str_split.simps) (simp split: option.split)

lemma str_split_last:
  "sep \<noteq> [] \<Longrightarrow> sublist sep s \<Longrightarrow>
   \<exists>p. s = p @ sep @ last (str_split sep s) \<and> \<not> sublist sep (last (str_split sep s))"
proof (induction sep s rule: str_split.induct)
  case (1 sep s)
  from "1.prems" obtain i where i: "str_find sep s = Some i"
    using str_find_None [of sep s] by auto
  define rest where "rest = drop (i + length sep) s"
  have s: "s = take i s @ sep @ rest"
    unfolding rest_def by (rule str_find_Some [OF i])
  have split: "str_split sep s = take i s # str_split sep rest"
    using "1.prems"(1) i by (subst str_split.simps) (simp add: rest_def)
  then have last: "last (str_split sep s) = last (str_split sep rest)"
    by (simp add: str_split_not_Nil)
  show ?case
  proof (cases "sublist sep rest")
    case True
    from "1.IH" [OF "1.prems"(1) i, folded rest_def, OF "1.prems"(1) True]
    obtain p where p: "rest = p @ sep @ last (str_split sep rest)"
      and n: "\<not> sublist sep (last (str_split sep rest))" by blast
    have "s = (take i s @ sep @ p) @ sep @ last (str_split sep s)"
      using s p last by simp
    with n last show ?thesis by metis
  next
    case False
    then have "str_find sep rest = None" by (simp add: str_find_None)
    then have "str_split sep rest = [rest]" by (subst str_split.simps) simp
    with s False last show ?thesis by auto
  qed
qed

lemma last_occurrence:
  assumes s: "s = p @ sep @ r" and s': "s = p' @ sep @ r'"
    and hd: "hd sep \<notin> set (tl sep)" and ne: "sep \<noteq> []" and r: "\<not> sublist sep r"
  shows "length p' \<le> length p"
proof (rule ccontr)
  assume "\<not> length p' \<le> length p"
  then have lt: "length p < length p'" by simp
  show False
  proof (cases "length p + length sep \<le> length p'")
    case True
    have "r = drop (length p + length sep) s" using s by simp
    also have "\<dots> = drop (length p + length sep) p' @ sep @ r'"
      using s' True by simp
    finally show False using r by (auto simp: sublist_def)
  next
    case False
    define k where "k = length p' - length p"
    have k: "0 < k" "k < length sep" "length p' = length p + k"
      using lt False by (auto simp: k_def)
    have "s ! length p' = hd sep"
      using s' ne by (simp add: nth_append hd_conv_nth)
    moreover have "s ! length p' = sep ! k"
      using s k by (simp add: nth_append)
    moreover have "sep ! k \<in> set (tl sep)"
      using k ne by (cases sep; cases k) auto
    ultimately show False using hd by simp
  qed
qed

lemma FINAL_ANSWER_props: "FINAL_ANSWER \<noteq> []" "hd FINAL_ANSWER \<notin> set (tl FINAL_ANSWER)"
  by (simp_all add: FINAL_ANSWER_def cps_def)


section \<open>Properties of the output parser\<close>

text \<open>
  The marker does not overlap itself, so the last part of the split is the text behind
  the last occurrence.
\<close>

lemma parse_after_last_marker:
  assumes decomp: "text = p @ FINAL_ANSWER @ r"
    and maximal: "\<forall>p' r'. text = p' @ FINAL_ANSWER @ r' \<longrightarrow> length p' \<le> length p"
  shows "parse json_loads text = Inr (AgentFinish (strip r) text)"
proof -
  have sub: "sublist FINAL_ANSWER text"
    using decomp by (auto simp: sublist_def)
  from str_split_last [OF FINAL_ANSWER_props(1) sub]
  obtain p0 where p0: "text = p0 @ FINAL_ANSWER @ last (str_split FINAL_ANSWER text)"
    and n: "\<not> sublist FINAL_ANSWER (last (str_split FINAL_ANSWER text))" by blast
  have "length p \<le> length p0"
    by (rule last_occurrence [OF p0 decomp FINAL_ANSWER_props(2) FINAL_ANSWER_props(1) n])
  moreover have "length p0 \<le> length p"
    using maximal p0 by blast
  ultimately have "length p = length p0" by simp
  with decomp p0 have "r = last (str_split FINAL_ANSWER text)"
    by (metis append_eq_append_conv same_append_eq)
  with sub show ?thesis
    by (simp add: parse_def str_contains_sublist)
qed

lemma last_marker_exists:
  assumes "sublist FINAL_ANSWER text"
  shows "\<exists>p r. text = p @ FINAL_ANSWER @ r
    \<and> (\<forall>p' r'. text = p' @ FINAL_ANSWER @ r' \<longrightarrow> length p' \<le> length p)"
proof -
  from str_split_last [OF FINAL_ANSWER_props(1) assms]
  obtain p where p: "text = p @ FINAL_ANSWER @ last (str_split FINAL_ANSWER text)"
    and n: "\<not> sublist FINAL_ANSWER (last (str_split FINAL_ANSWER text))" by blast
  have "length p' \<le> length p" if "text = p' @ FINAL_ANSWER @ r'" for p' r'
    by (rule last_occurrence [OF p that FINAL_ANSWER_props(2) FINAL_ANSWER_props(1) n])
  with p show ?thesis by blast
qed

text \<open>
  Claim C1. A text that contains the marker \<^verbatim>\<open>Final Answer:\<close> is a Finish whose
  output is what follows the last occurrence of the marker, stripped, whatever else the
  text holds: the text splits into \<open>p\<close>, the marker and \<open>r\<close> with no occurrence of the
  marker starting behind \<open>p\<close>, and the output is \<open>strip r\<close>. The action pattern is never
  consulted.
\<close>

theorem parse_final_answer:
  assumes "sublist FINAL_ANSWER text"
  shows "\<exists>p r. text = p @ FINAL_ANSWER @ r
    \<and> (\<forall>p' r'. text = p' @ FINAL_ANSWER @ r' \<longrightarrow> length p' \<le> length p)
    \<and> parse json_loads text = Inr (AgentFinish (strip r) text)"
proof -
  from last_marker_exists [OF assms] obtain p r where d: "text = p @ FINAL_ANSWER @ r"
    and m: "\<forall>p' r'. text = p' @ FINAL_ANSWER @ r' \<longrightarrow> length p' \<le> length p" by blast
  from parse_after_last_marker [OF d m] d m show ?thesis by blast
qed

text \<open>A text with a well-formed Action block in front of the marker.\<close>

theorem parse_final_answer_witness:
  \<open>parse py_json_loads
     (cps ''Action:```json{"action": "X", "action_input": "y"}``` '' @ FINAL_ANSWER @ cps '' 42 '')
   = Inr (AgentFinish (cps ''42'')
       (cps ''Action:```json{"action": "X", "action_input": "y"}``` '' @ FINAL_ANSWER @ cps '' 42 ''))\<close>
proof -
  let ?P = \<open>cps ''Action:```json{"action": "X", "action_input": "y"}``` ''\<close>
  let ?R = \<open>cps '' 42 ''\<close>
  let ?T = "?P @ FINAL_ANSWER @ ?R"
  have sub: "sublist FINAL_ANSWER ?T"
    by (rule sublist_appendI)
  from parse_final_answer [OF sub, of py_json_loads]
  obtain p r where d: "?T = p @ FINAL_ANSWER @ r"
    and m: "\<forall>p' r'. ?T = p' @ FINAL_ANSWER @ r' \<longrightarrow> length p' \<le> length p"
    and f: "parse py_json_loads ?T = Inr (AgentFinish (strip r) ?T)" by blast
  have n: "\<not> sublist FINAL_ANSWER ?R"
    by (rule not_sublist_eval) (simp add: FINAL_ANSWER_def cps_def)
  have "length p \<le> length ?P"
    by (rule last_occurrence [OF refl d FINAL_ANSWER_props(2) FINAL_ANSWER_props(1) n])
  moreover have "length ?P \<le> length p"
    using m by blast
  ultimately have "length p = length ?P" by simp
  with d have "r = ?R"
    by (metis append_eq_append_conv same_append_eq)
  moreover have "strip ?R = cps ''42''"
    by (simp add: str_eval)
  ultimately show ?thesis using f by simp
qed

text \<open>
  Claim C2. The parser is meant never to raise. A fenced block whose JSON is an array has
  no \<^verbatim>\<open>get\<close>: the \<^verbatim>\<open>AttributeError\<close> is neither a \<^verbatim>\<open>JSONDecodeError\<close> nor a
  \<^verbatim>\<open>ValueError\<close>, and leaves \<^verbatim>\<open>parse\<close>.
\<close>

theorem parse_non_object_raises:
  \<open>parse py_json_loads (cps ''Action:\<newline>```json\<newline>[1, 2]\<newline>```'') = Inl AttributeError\<close>
  by (simp add: parse_def action_block_def is_ValueError_def rx_eval str_eval json_eval)







text \<open>
  Claim C9. A text with neither the marker nor a match of the action pattern is the
  Finish of the text, stripped.
\<close>

theorem parse_default_finish:
  assumes "\<not> sublist FINAL_ANSWER text" and "re_search ACTION_RE text = None"
  shows "parse json_loads text = Inr (AgentFinish (strip text) text)"
  using assms by (simp add: parse_def str_contains_sublist)

text \<open>An action label without the fence.\<close>

theorem parse_default_finish_witness:
  \<open>\<not> sublist FINAL_ANSWER (cps '' Action: {"action": "X", "action_input": "y"} '')
   \<and> re_search ACTION_RE (cps '' Action: {"action": "X", "action_input": "y"} '') = None
   \<and> parse py_json_loads (cps '' Action: {"action": "X", "action_input": "y"} '')
       = Inr (AgentFinish (cps ''Action: {"action": "X", "action_input": "y"}'')
           (cps '' Action: {"action": "X", "action_input": "y"} ''))\<close>
proof -
  let ?text = \<open>cps '' Action: {"action": "X", "action_input": "y"} ''\<close>
  have f1: "\<not> sublist FINAL_ANSWER ?text"
    by (rule not_sublist_eval) (simp add: FINAL_ANSWER_def cps_def)
  have f2: "re_search ACTION_RE ?text = None"
    by (simp add: rx_eval)
  have f3: \<open>strip ?text = cps ''Action: {"action": "X", "action_input": "y"}''\<close>
    by (simp add: str_eval)
  from parse_default_finish [where json_loads = py_json_loads, OF f1 f2] f1 f2 f3
  show ?thesis by (simp only: simp_thms)
qed

section \<open>Properties of the payload recoverer\<close>

text \<open>
  The order of the strategies: a strict parse that succeeds is returned whatever its
  type; the literal parse of the whole text counts only for a dict or a list; the
  patterns are the last resort. With a library that raises only what the handlers of the
  first two strategies name, the recoverer returns.
\<close>

lemma recover_strict_first:
  "json_loads (strip s) = Inr v \<Longrightarrow>
   try_extract_json_from_text json_loads literal_eval (PStr s) = Inr v"
  by simp

lemma recover_literal_stage:
  assumes "json_loads (strip s) = Inl e" and "e = JSONDecodeError \<or> e = TypeError"
    and "literal_eval (strip s) = Inr c"
  shows "try_extract_json_from_text json_loads literal_eval (PStr s) =
    (if is_dict_or_list c then Inr c else extract_loop json_loads literal_eval s patterns)"
  using assms by (auto simp: literal_stage_def)

lemma extract_loop_total:
  assumes "\<forall>x e. json_loads x = Inl e \<longrightarrow> is_Exception e"
    and "\<forall>x e. literal_eval x = Inl e \<longrightarrow> is_Exception e"
  shows "\<exists>v. extract_loop json_loads literal_eval s pats = Inr v"
  using assms by (induction pats) (auto simp: Let_def split: option.splits sum.splits)

lemma recover_total_if_library_raises_value_errors:
  assumes "\<forall>x e. json_loads x = Inl e \<longrightarrow> e = JSONDecodeError"
    and "\<forall>x e. literal_eval x = Inl e \<longrightarrow> is_ValueError e \<or> e = SyntaxError"
  shows "\<exists>v. try_extract_json_from_text json_loads literal_eval s = Inr v"
proof (cases s)
  case (PStr t)
  have "\<exists>v. extract_loop json_loads literal_eval t patterns = Inr v"
    by (rule extract_loop_total) (use assms in \<open>auto simp: is_Exception_def is_ValueError_def\<close>)
  with assms PStr show ?thesis
    by (auto simp: literal_stage_def split: sum.splits)
qed simp_all

text \<open>
  Claim C5. The pattern stage is meant to yield objects and arrays only. It returns what
  \<^verbatim>\<open>ast.literal_eval\<close> makes of the candidate without the type test of the stage before:
  a set literal comes back as a set.
\<close>

theorem recover_set_literal:
  \<open>try_extract_json_from_text py_json_loads py_literal_eval (PStr (cps ''{1, 2}''))
   = Inr (PSet [PInt 1, PInt 2])\<close>
  by (simp add: literal_stage_def is_ValueError_def is_Exception_def
      rx_eval str_eval json_eval literal_eval)

text \<open>
  Claim C6, as amended. When the strict parse and the literal parse of the whole text
  give nothing and the array pattern matches, the value of its candidate, by the strict
  parse or else by the literal parse, is the result, whatever braces the text holds.
\<close>

theorem recover_array_first:
  assumes "json_loads (strip s) = Inl e1" and "e1 = JSONDecodeError \<or> e1 = TypeError"
    and "case literal_eval (strip s) of
           Inl e2 \<Rightarrow> is_ValueError e2 \<or> e2 = SyntaxError
         | Inr c \<Rightarrow> \<not> is_dict_or_list c"
    and "re_search ARRAY_RE s = Some g"
    and "json_loads (strip_chars is_backtick (strip g)) = Inr v
         \<or> (\<exists>e. json_loads (strip_chars is_backtick (strip g)) = Inl e \<and> is_Exception e
               \<and> literal_eval (strip_chars is_backtick (strip g)) = Inr v)"
  shows "try_extract_json_from_text json_loads literal_eval (PStr s) = Inr v"
  using assms by (auto simp: literal_stage_def patterns_def Let_def split: sum.splits)

text \<open>An array in front of an object, both inside prose.\<close>

theorem recover_array_first_witness:
  \<open>try_extract_json_from_text py_json_loads py_literal_eval
     (PStr (cps ''Result: [1, 2] and {"a": 1}'')) = Inr (PList [PInt 1, PInt 2])\<close>
proof -
  let ?s = \<open>cps ''Result: [1, 2] and {"a": 1}''\<close>
  have f1: "py_json_loads (strip ?s) = Inl JSONDecodeError"
    by (simp add: str_eval json_eval)
  have f2: "case py_literal_eval (strip ?s) of
           Inl e2 \<Rightarrow> is_ValueError e2 \<or> e2 = SyntaxError
         | Inr c \<Rightarrow> \<not> is_dict_or_list c"
    by (simp add: str_eval literal_eval)
  have f3: "re_search ARRAY_RE ?s = Some (cps ''[1, 2]'')"
    by (simp add: rx_eval)
  have f4: "py_json_loads (strip_chars is_backtick (strip (cps ''[1, 2]''))) = Inr (PList [PInt 1, PInt 2])"
    by (simp add: str_eval json_eval)
  show ?thesis
    by (rule recover_array_first [where json_loads = py_json_loads and literal_eval = py_literal_eval
          and ?e1.0 = JSONDecodeError, OF f1 _ f2 f3]) (use f4 in simp_all)
qed

text \<open>
  Claim C6 as stated fails: this text holds a span of either shape, the array pattern
  matches \<^verbatim>\<open>[1]\<close>, and the result is the object of the strict parse.
\<close>

theorem recover_whole_object_counterexample:
  \<open>re_search ARRAY_RE (cps ''{"a": [1]}'') = Some (cps ''[1]'')
   \<and> re_search OBJECT_RE (cps ''{"a": [1]}'') = Some (cps ''{"a": [1]}'')
   \<and> py_json_loads (strip_chars is_backtick (strip (cps ''[1]''))) = Inr (PList [PInt 1])
   \<and> try_extract_json_from_text py_json_loads py_literal_eval (PStr (cps ''{"a": [1]}''))
       = Inr (PDict [(PStr (cps ''a''), PList [PInt 1])])\<close>
  by (simp add: rx_eval str_eval json_eval)

text \<open>
  Claim C7. The recoverer is meant never to raise. The handler of the literal parse names
  \<^verbatim>\<open>ValueError\<close> and \<^verbatim>\<open>SyntaxError\<close> only, and the \<^verbatim>\<open>TypeError\<close> of a dict literal
  with a list as key leaves the function.
\<close>

theorem recover_unhashable_key_raises:
  \<open>try_extract_json_from_text py_json_loads py_literal_eval (PStr (cps ''{[1]: 2}''))
   = Inl TypeError\<close>
  by (simp add: literal_stage_def is_ValueError_def is_Exception_def
      rx_eval str_eval json_eval literal_eval)

text \<open>The other half of the claim holds: plain prose is not recoverable, and the caller
  wraps it.\<close>

lemma recover_plain_text:
  \<open>try_extract_json_from_text py_json_loads py_literal_eval (PStr (cps ''The result is 42'')) = Inr PNone
   \<and> respond_str py_json_loads py_literal_eval (cps ''The result is 42'')
       = Inr (PDict [(PStr (cps ''output''), PStr (cps ''The result is 42''))])\<close>
  by (simp add: respond_str_def literal_stage_def is_ValueError_def is_Exception_def
      rx_eval str_eval json_eval literal_eval)

text \<open>
  Claim C10. A value that is no \<^verbatim>\<open>str\<close> is not recoverable, and neither parser is
  called: the result does not depend on them.
\<close>

theorem recover_non_str:
  assumes "\<not> is_str s"
  shows "try_extract_json_from_text json_loads literal_eval s = Inr PNone"
  using assms by (cases s) simp_all

text \<open>A dict, with parsers that would interrupt the program if called.\<close>

theorem recover_non_str_witness:
  "\<not> is_str (PDict [(PStr (cps ''a''), PInt 1)])
   \<and> try_extract_json_from_text (\<lambda>x. Inl KeyboardInterrupt) (\<lambda>x. Inl KeyboardInterrupt)
        (PDict [(PStr (cps ''a''), PInt 1)]) = Inr PNone"
proof -
  have f1: "\<not> is_str (PDict [(PStr (cps ''a''), PInt 1)])" by simp
  from recover_non_str [OF f1] f1 show ?thesis by blast
qed

section \<open>The round trip through the strict parse\<close>



































lemma json_step_open:
  "expects_value st \<Longrightarrow> json_step st JLBrack = Some (FArrOpen # st)"
  "expects_value st \<Longrightarrow> json_step st JLBrace = Some (FObjOpen # st)"
  by simp_all













end
